theory Spec2Isabelle
  imports Complex_Main
begin

section \<open>Filtered flux: the value of the PSF-filtered image at a source\<close>

text \<open>
  A shallow embedding of \<^verbatim>\<open>FilteredFlux::_apply\<close> (src/flux/FilteredFlux.cc).
  The function is one straight-line body that calls into \<^verbatim>\<open>lsst::afw\<close>
  (image geometry, PSF kernels, warping kernels, point convolution). Those callees are
  not part of this repository: they are the fields of the record \<open>afw\<close> below, and
  every one that can throw returns a sum, \<open>Inl\<close> the exception.
\<close>

subsection \<open>Values of type double\<close>

text \<open>
  The arithmetic of the body is on \<^verbatim>\<open>double\<close>. The model keeps the special
  values, because the body divides without a guard: a finite value is an exact real
  (rounding and the sign of zero are not modelled), and the infinities and NaN behave
  as in IEEE 754.
\<close>

datatype double = Fin real | PInf | NInf | NaN

fun dadd :: "double \<Rightarrow> double \<Rightarrow> double" where
  "dadd (Fin a) (Fin b) = Fin (a + b)"
| "dadd NaN _ = NaN"
| "dadd _ NaN = NaN"
| "dadd PInf NInf = NaN"
| "dadd NInf PInf = NaN"
| "dadd PInf _ = PInf"
| "dadd _ PInf = PInf"
| "dadd NInf _ = NInf"
| "dadd _ NInf = NInf"

fun dinf_scaled :: "real \<Rightarrow> double" where
  "dinf_scaled a = (if 0 < a then PInf else if a < 0 then NInf else NaN)"

fun dmul :: "double \<Rightarrow> double \<Rightarrow> double" where
  "dmul (Fin a) (Fin b) = Fin (a * b)"
| "dmul NaN _ = NaN"
| "dmul _ NaN = NaN"
| "dmul PInf (Fin b) = dinf_scaled b"
| "dmul (Fin a) PInf = dinf_scaled a"
| "dmul NInf (Fin b) = dinf_scaled (- b)"
| "dmul (Fin a) NInf = dinf_scaled (- a)"
| "dmul PInf PInf = PInf"
| "dmul NInf NInf = PInf"
| "dmul PInf NInf = NInf"
| "dmul NInf PInf = NInf"

fun ddiv :: "double \<Rightarrow> double \<Rightarrow> double" where
  "ddiv (Fin a) (Fin b) = (if b = 0 then dinf_scaled a else Fin (a / b))"
| "ddiv NaN _ = NaN"
| "ddiv _ NaN = NaN"
| "ddiv (Fin a) PInf = Fin 0"
| "ddiv (Fin a) NInf = Fin 0"
| "ddiv PInf (Fin b) = (if 0 \<le> b then PInf else NInf)"
| "ddiv NInf (Fin b) = (if 0 \<le> b then NInf else PInf)"
| "ddiv PInf PInf = NaN"
| "ddiv PInf NInf = NaN"
| "ddiv NInf PInf = NaN"
| "ddiv NInf NInf = NaN"

fun dless :: "double \<Rightarrow> double \<Rightarrow> bool" where
  "dless (Fin a) (Fin b) = (a < b)"
| "dless NaN _ = False"
| "dless _ NaN = False"
| "dless NInf NInf = False"
| "dless NInf _ = True"
| "dless PInf _ = False"
| "dless (Fin a) PInf = True"
| "dless (Fin a) NInf = False"

definition dsum :: "double list \<Rightarrow> double" where
  "dsum xs = foldl dadd (Fin 0) xs"

subsection \<open>Data\<close>

datatype error = ConfigurationError | ComputationError | BoundsError

text \<open>\<^verbatim>\<open>afwImage::x\<close> and \<^verbatim>\<open>afwImage::y\<close>.\<close>

datatype xOrY = X | Y

text \<open>
  \<^verbatim>\<open>MaskedImageT::SinglePixel\<close>: the body reads \<^verbatim>\<open>image()\<close> and
  \<^verbatim>\<open>variance()\<close> only; the mask plane is left out.
\<close>

record SinglePixel =
  pixImage :: double
  pixVariance :: double

text \<open>
  A masked image: its origin \<^verbatim>\<open>getXY0()\<close> in the parent frame and its rows of
  pixels, row \<open>0\<close> first.
\<close>

record MaskedImage =
  getXY0 :: "int \<times> int"
  pixelRows :: "SinglePixel list list"

type_synonym KernelImage = "double list list"

text \<open>
  \<^verbatim>\<open>afwMath::Kernel\<close>: dimensions, the declared centre and the parameters.
  \<open>kernelName\<close> stands for the dynamic type of the object, which decides what
  \<^verbatim>\<open>computeImage\<close> computes.
\<close>

record Kernel =
  kernelName :: string
  getWidth :: int
  getHeight :: int
  getCtrX :: int
  getCtrY :: int
  getKernelParameters :: "double list"

definition setCtrX :: "Kernel \<Rightarrow> int \<Rightarrow> Kernel" where
  "setCtrX k c = k\<lparr>getCtrX := c\<rparr>"

definition setCtrY :: "Kernel \<Rightarrow> int \<Rightarrow> Kernel" where
  "setCtrY k c = k\<lparr>getCtrY := c\<rparr>"

definition setKernelParameters :: "Kernel \<Rightarrow> double \<times> double \<Rightarrow> Kernel" where
  "setKernelParameters k p = k\<lparr>getKernelParameters := [fst p, snd p]\<rparr>"

text \<open>
  An \<^verbatim>\<open>xy_locator\<close>: a position in the pixel array of an image. \<^verbatim>\<open>xy_at\<close>
  builds it from array indices and checks nothing.
\<close>

record 'i locator =
  locImage :: 'i
  locX :: int
  locY :: int

definition xy_at :: "'i \<Rightarrow> int \<Rightarrow> int \<Rightarrow> 'i locator" where
  "xy_at im x y = \<lparr>locImage = im, locX = x, locY = y\<rparr>"

record 'p Exposure =
  getMaskedImage :: MaskedImage
  getPsf :: 'p

record FilteredFluxControl =
  warpingKernelName :: string

text \<open>
  The source record. \<open>flag\<close>, \<open>meas\<close> and \<open>err\<close> are the fields behind
  \<^verbatim>\<open>getKeys().flag\<close>, \<^verbatim>\<open>getKeys().meas\<close> and \<^verbatim>\<open>getKeys().err\<close>; every
  other field of the record is in the extension part \<open>SourceRecord.more\<close>.
\<close>

record SourceRecord =
  flag :: bool
  meas :: double
  err :: double

text \<open>The callees in \<^verbatim>\<open>lsst::afw\<close>, as parameters of the model.\<close>

record 'p afw =
  positionToIndex :: "MaskedImage \<Rightarrow> double \<Rightarrow> xOrY \<Rightarrow> int \<times> double"
  indexToPosition :: "MaskedImage \<Rightarrow> int \<Rightarrow> xOrY \<Rightarrow> double"
  getLocalKernel :: "'p \<Rightarrow> double \<times> double \<Rightarrow> error + Kernel"
  computeImage :: "Kernel \<Rightarrow> bool \<Rightarrow> error + KernelImage"
  makeWarpingKernel :: "string \<Rightarrow> error + Kernel"
  convolveAtAPoint ::
    "MaskedImage locator \<Rightarrow> KernelImage locator \<Rightarrow> int \<Rightarrow> int \<Rightarrow> error + SinglePixel"

subsection \<open>The body of \<^verbatim>\<open>_apply\<close>\<close>

text \<open>Lines 104 to 107: the position of the pixel closest to the centre of the source.\<close>

definition ctrPixPos :: "'p afw \<Rightarrow> MaskedImage \<Rightarrow> double \<times> double \<Rightarrow> double \<times> double" where
  "ctrPixPos lib mimage center =
     (let xCtrPixIndFrac = positionToIndex lib mimage (fst center) X;
          yCtrPixIndFrac = positionToIndex lib mimage (snd center) Y
      in (indexToPosition lib mimage (fst xCtrPixIndFrac) X,
          indexToPosition lib mimage (fst yCtrPixIndFrac) Y))"

text \<open>Lines 111 to 117: the two loops over the rows and the cells of the PSF image.\<close>

definition psfSqSum :: "KernelImage \<Rightarrow> double" where
  "psfSqSum psfImage =
     fold (\<lambda>row acc. fold (\<lambda>p a. dadd a (dmul p p)) row acc) psfImage (Fin 0)"

text \<open>Lines 108 to 118: \<^verbatim>\<open>weight = 1.0 / psfSqSum\<close>, with no test of the divisor.\<close>

definition weight :: "'p afw \<Rightarrow> 'p Exposure \<Rightarrow> double \<times> double \<Rightarrow> error + double" where
  "weight lib exposure center =
     (case getLocalKernel lib (getPsf exposure)
             (ctrPixPos lib (getMaskedImage exposure) center) of
        Inl e \<Rightarrow> Inl e
      | Inr psfKernel \<Rightarrow>
          (case computeImage lib psfKernel True of
             Inl e \<Rightarrow> Inl e
           | Inr psfImage \<Rightarrow> Inr (ddiv (Fin 1) (psfSqSum psfImage))))"

text \<open>
  Lines 125 to 137: the warping kernel is made, its centre is moved where an offset is
  negative, and then its parameters are set.
\<close>

definition warpingKernel ::
  "'p afw \<Rightarrow> FilteredFluxControl \<Rightarrow> double \<Rightarrow> double \<Rightarrow> error + Kernel" where
  "warpingKernel lib ctrl dKerX dKerY =
     (case makeWarpingKernel lib (warpingKernelName ctrl) of
        Inl e \<Rightarrow> Inl e
      | Inr k0 \<Rightarrow>
          (let k1 = (if dless dKerX (Fin 0) then setCtrX k0 (getCtrX k0 + 1) else k0);
               k2 = (if dless dKerY (Fin 0) then setCtrY k1 (getCtrY k1 + 1) else k1)
           in Inr (setKernelParameters k2 (dKerX, dKerY))))"

text \<open>Line 144: \<^verbatim>\<open>mimage.getXY0() - Extent2I(warpingKernelPtr->getCtr())\<close>.\<close>

definition subimMin :: "MaskedImage \<Rightarrow> Kernel \<Rightarrow> int \<times> int" where
  "subimMin mimage wk =
     (fst (getXY0 mimage) - getCtrX wk, snd (getXY0 mimage) - getCtrY wk)"

text \<open>Lines 138 to 147: the image of the warping kernel and the convolution at one point.\<close>

definition mimageCtrPix :: "'p afw \<Rightarrow> MaskedImage \<Rightarrow> Kernel \<Rightarrow> error + SinglePixel" where
  "mimageCtrPix lib mimage wk =
     (case computeImage lib wk True of
        Inl e \<Rightarrow> Inl e
      | Inr warpingKernelImage \<Rightarrow>
          convolveAtAPoint lib
            (xy_at mimage (fst (subimMin mimage wk)) (snd (subimMin mimage wk)))
            (xy_at warpingKernelImage 0 0) (getWidth wk) (getHeight wk))"

text \<open>Lines 96 to 150: everything between the first and the last writes to the source.\<close>

definition measurement ::
  "'p afw \<Rightarrow> FilteredFluxControl \<Rightarrow> 'p Exposure \<Rightarrow> double \<times> double \<Rightarrow> error + double \<times> double"
  where
  "measurement lib ctrl exposure center =
     (let mimage = getMaskedImage exposure;
          xCtrPixIndFrac = positionToIndex lib mimage (fst center) X;
          yCtrPixIndFrac = positionToIndex lib mimage (snd center) Y
      in case weight lib exposure center of
           Inl e \<Rightarrow> Inl e
         | Inr w \<Rightarrow>
             (case warpingKernel lib ctrl (snd xCtrPixIndFrac) (snd yCtrPixIndFrac) of
                Inl e \<Rightarrow> Inl e
              | Inr wk \<Rightarrow>
                  (case mimageCtrPix lib mimage wk of
                     Inl e \<Rightarrow> Inl e
                   | Inr p \<Rightarrow> Inr (dmul (pixImage p) w, dmul (dmul (pixVariance p) w) w))))"

text \<open>
  The whole call, with every state the source record goes through, in order: after line
  92, and, when nothing was thrown, after lines 152, 153 and 154. The first component
  is the exception that leaves the call, if any.
\<close>

definition FilteredFlux_apply_states ::
  "'p afw \<Rightarrow> FilteredFluxControl \<Rightarrow> 'z SourceRecord_scheme \<Rightarrow> 'p Exposure \<Rightarrow> double \<times> double
     \<Rightarrow> error option \<times> 'z SourceRecord_scheme list" where
  "FilteredFlux_apply_states lib ctrl source exposure center =
     (let s1 = source\<lparr>flag := True\<rparr>
      in case measurement lib ctrl exposure center of
           Inl e \<Rightarrow> (Some e, [s1])
         | Inr fv \<Rightarrow>
             (let s2 = s1\<lparr>meas := fst fv\<rparr>;
                  s3 = s2\<lparr>err := snd fv\<rparr>;
                  s4 = s3\<lparr>flag := False\<rparr>
              in (None, [s1, s2, s3, s4])))"

text \<open>The call as its caller sees it: the exception, if any, and the source record left.\<close>

definition FilteredFlux_apply ::
  "'p afw \<Rightarrow> FilteredFluxControl \<Rightarrow> 'z SourceRecord_scheme \<Rightarrow> 'p Exposure \<Rightarrow> double \<times> double
     \<Rightarrow> error option \<times> 'z SourceRecord_scheme" where
  "FilteredFlux_apply lib ctrl source exposure center =
     (fst (FilteredFlux_apply_states lib ctrl source exposure center),
      last (snd (FilteredFlux_apply_states lib ctrl source exposure center)))"

subsection \<open>The objects the call is given\<close>




subsection \<open>A concrete library for running the model\<close>

text \<open>
  Modelled from the spec: the callees of \<^verbatim>\<open>_apply\<close> live in \<^verbatim>\<open>lsst::afw\<close>, not
  in this repository. The definitions of this subsection follow sections 4.1, 4.3 and
  4.4 of the specification, with the bilinear family as the one resampling family on
  offer. They are used to run the model on concrete inputs, and where a claim is about
  what the point convolution itself does.
\<close>

text \<open>
  Modelled from the spec: PixelGridMapper (4.1). The index of the nearest pixel,
  counted from the image origin, and the residual in \<open>[-1/2, 1/2)\<close>; with that
  range a position half way between two pixels has the residual \<open>-1/2\<close>.
\<close>

definition axisOrigin :: "MaskedImage \<Rightarrow> xOrY \<Rightarrow> int" where
  "axisOrigin mimage xy = (case xy of X \<Rightarrow> fst (getXY0 mimage) | Y \<Rightarrow> snd (getXY0 mimage))"

definition positionToIndex_spec :: "MaskedImage \<Rightarrow> double \<Rightarrow> xOrY \<Rightarrow> int \<times> double" where
  "positionToIndex_spec mimage pos xy =
     (case pos of
        Fin p \<Rightarrow>
          (let fullIndex = p - of_int (axisOrigin mimage xy);
               roundedIndex = \<lfloor>fullIndex + 1 / 2\<rfloor>
           in (roundedIndex, Fin (fullIndex - of_int roundedIndex)))
      | _ \<Rightarrow> (0, NaN))"

text \<open>Modelled from the spec: the inverse mapping of step 3 of section 4.5.\<close>

definition indexToPosition_spec :: "MaskedImage \<Rightarrow> int \<Rightarrow> xOrY \<Rightarrow> double" where
  "indexToPosition_spec mimage ind xy = Fin (of_int ind + of_int (axisOrigin mimage xy))"

text \<open>
  Modelled from the spec: PSFModel (3). Here a PSF model is one kernel, the same at
  every point.
\<close>

definition getLocalKernel_spec :: "Kernel \<Rightarrow> double \<times> double \<Rightarrow> error + Kernel" where
  "getLocalKernel_spec psf p = Inr psf"

text \<open>
  Modelled from the spec: KernelImage (3) and SubpixelWarpKernelBuilder (4.3). A
  bilinear kernel has the taps \<open>1 - |x - d|\<close> at the distances \<open>x\<close> of its columns and
  rows from its declared centre; any other kernel is a fixed image, its cells listed
  row by row in its parameters. With \<open>doNormalize\<close> the cells are divided by their sum.
\<close>

fun rowsOf :: "nat \<Rightarrow> nat \<Rightarrow> 'a list \<Rightarrow> 'a list list" where
  "rowsOf w 0 xs = []"
| "rowsOf w (Suc h) xs = take w xs # rowsOf w h (drop w xs)"

definition bilinearTap :: "int \<Rightarrow> double \<Rightarrow> double" where
  "bilinearTap x d = (case d of Fin r \<Rightarrow> Fin (1 - \<bar>of_int x - r\<bar>) | _ \<Rightarrow> NaN)"

definition normalizeImage :: "KernelImage \<Rightarrow> KernelImage" where
  "normalizeImage img = map (map (\<lambda>c. ddiv c (dsum (concat img)))) img"

definition computeImage_spec :: "Kernel \<Rightarrow> bool \<Rightarrow> error + KernelImage" where
  "computeImage_spec k doNormalize =
     (let img =
        (if kernelName k = ''bilinear'' then
           (case getKernelParameters k of
              [dx, dy] \<Rightarrow>
                map (\<lambda>j. map (\<lambda>i. dmul (bilinearTap (int i - getCtrX k) dx)
                                        (bilinearTap (int j - getCtrY k) dy))
                              [0..<nat (getWidth k)])
                    [0..<nat (getHeight k)]
            | _ \<Rightarrow> [])
         else rowsOf (nat (getWidth k)) (nat (getHeight k)) (getKernelParameters k))
      in Inr (if doNormalize then normalizeImage img else img))"

text \<open>
  Modelled from the spec: the configuration option \<open>warpingKernelName\<close> (6) and the
  ConfigurationError of section 7.
\<close>

definition makeWarpingKernel_spec :: "string \<Rightarrow> error + Kernel" where
  "makeWarpingKernel_spec name =
     (if name = ''bilinear'' then
        Inr \<lparr>kernelName = ''bilinear'', getWidth = 2, getHeight = 2, getCtrX = 0, getCtrY = 0,
             getKernelParameters = [Fin 0, Fin 0]\<rparr>
      else Inl ConfigurationError)"

text \<open>
  Modelled from the spec: PointConvolver (4.4). Kernel cell \<open>(0, 0)\<close> lies on the image
  cell of the image locator; the sums run over the cells of the kernel, row by row; a
  cell of the footprint outside the plane is a BoundsError.
\<close>

definition pixelAt :: "MaskedImage \<Rightarrow> int \<Rightarrow> int \<Rightarrow> SinglePixel option" where
  "pixelAt im x y =
     (if 0 \<le> x \<and> 0 \<le> y \<and> nat y < length (pixelRows im)
         \<and> nat x < length (pixelRows im ! nat y)
      then Some (pixelRows im ! nat y ! nat x) else None)"

definition addScaled :: "SinglePixel \<Rightarrow> double \<Rightarrow> SinglePixel \<Rightarrow> SinglePixel" where
  "addScaled acc k p =
     \<lparr>pixImage = dadd (pixImage acc) (dmul k (pixImage p)),
      pixVariance = dadd (pixVariance acc) (dmul (dmul k k) (pixVariance p))\<rparr>"

fun convolveRow ::
  "MaskedImage \<Rightarrow> int \<Rightarrow> int \<Rightarrow> double list \<Rightarrow> SinglePixel \<Rightarrow> error + SinglePixel" where
  "convolveRow im x y [] acc = Inr acc"
| "convolveRow im x y (k # ks) acc =
     (case pixelAt im x y of
        None \<Rightarrow> Inl BoundsError
      | Some p \<Rightarrow> convolveRow im (x + 1) y ks (addScaled acc k p))"

fun convolveRows ::
  "MaskedImage \<Rightarrow> int \<Rightarrow> int \<Rightarrow> double list list \<Rightarrow> SinglePixel \<Rightarrow> error + SinglePixel" where
  "convolveRows im x y [] acc = Inr acc"
| "convolveRows im x y (row # rows) acc =
     (case convolveRow im x y row acc of
        Inl e \<Rightarrow> Inl e
      | Inr acc' \<Rightarrow> convolveRows im x (y + 1) rows acc')"

text \<open>The \<open>width\<close> by \<open>height\<close> cells of the kernel image that start at a locator.\<close>

definition kernelCells :: "KernelImage locator \<Rightarrow> int \<Rightarrow> int \<Rightarrow> double list list" where
  "kernelCells kLoc width height =
     map (\<lambda>row. take (nat width) (drop (nat (locX kLoc)) row))
         (take (nat height) (drop (nat (locY kLoc)) (locImage kLoc)))"

definition convolveAtAPoint_spec ::
  "MaskedImage locator \<Rightarrow> KernelImage locator \<Rightarrow> int \<Rightarrow> int \<Rightarrow> error + SinglePixel" where
  "convolveAtAPoint_spec imLoc kLoc width height =
     convolveRows (locImage imLoc) (locX imLoc) (locY imLoc) (kernelCells kLoc width height)
       \<lparr>pixImage = Fin 0, pixVariance = Fin 0\<rparr>"

definition spec_afw :: "Kernel afw" where
  "spec_afw =
     \<lparr>positionToIndex = positionToIndex_spec,
      indexToPosition = indexToPosition_spec,
      getLocalKernel = getLocalKernel_spec,
      computeImage = computeImage_spec,
      makeWarpingKernel = makeWarpingKernel_spec,
      convolveAtAPoint = convolveAtAPoint_spec\<rparr>"

subsection \<open>The concrete scenario of the specification\<close>

text \<open>
  A 5 by 5 image at origin \<open>(0, 0)\<close>, 0 everywhere except 100 at the centre cell,
  variance 1 everywhere; the PSF is one cell of weight 1; the source is at the centre
  pixel.
\<close>

definition scenario_pixel :: "real \<Rightarrow> SinglePixel" where
  "scenario_pixel v = \<lparr>pixImage = Fin v, pixVariance = Fin 1\<rparr>"

definition scenario_image :: MaskedImage where
  "scenario_image =
     \<lparr>getXY0 = (0, 0),
      pixelRows =
        [map scenario_pixel [0, 0, 0, 0, 0],
         map scenario_pixel [0, 0, 0, 0, 0],
         map scenario_pixel [0, 0, 100, 0, 0],
         map scenario_pixel [0, 0, 0, 0, 0],
         map scenario_pixel [0, 0, 0, 0, 0]]\<rparr>"

definition scenario_psf :: Kernel where
  "scenario_psf =
     \<lparr>kernelName = ''fixed'', getWidth = 1, getHeight = 1, getCtrX = 0, getCtrY = 0,
      getKernelParameters = [Fin 1]\<rparr>"

definition scenario_exposure :: "Kernel Exposure" where
  "scenario_exposure = \<lparr>getMaskedImage = scenario_image, getPsf = scenario_psf\<rparr>"

definition scenario_ctrl :: FilteredFluxControl where
  "scenario_ctrl = \<lparr>warpingKernelName = ''bilinear''\<rparr>"

definition scenario_center :: "double \<times> double" where
  "scenario_center = (Fin 2, Fin 2)"

definition scenario_source :: SourceRecord where
  "scenario_source = \<lparr>flag = False, meas = Fin 7, err = Fin 7\<rparr>"

text \<open>A control object that names no resampling family of the library.\<close>

definition unknown_ctrl :: FilteredFluxControl where
  "unknown_ctrl = \<lparr>warpingKernelName = ''nosuch''\<rparr>"

subsection \<open>The cells a kernel overlaps\<close>

text \<open>
  The cells of one kernel row laid on the image from \<open>(x, y)\<close> to the right, each
  weight with the pixel under it, and the cells of all rows, from row \<open>y\<close> on. The
  result is \<open>None\<close> when a cell lies outside the stored pixels.
\<close>

definition footprintRow ::
  "MaskedImage \<Rightarrow> int \<Rightarrow> int \<Rightarrow> double list \<Rightarrow> (double \<times> SinglePixel) list option" where
  "footprintRow im x y ks =
     those (map (\<lambda>ik. map_option (Pair (snd ik)) (pixelAt im (x + int (fst ik)) y))
                (enumerate 0 ks))"

definition footprint ::
  "MaskedImage \<Rightarrow> int \<Rightarrow> int \<Rightarrow> double list list \<Rightarrow> (double \<times> SinglePixel) list option" where
  "footprint im x y rows =
     map_option concat
       (those (map (\<lambda>jr. footprintRow im x (y + int (fst jr)) (snd jr)) (enumerate 0 rows)))"

subsection \<open>Further inputs\<close>





text \<open>A library whose PSF model has no kernel to give.\<close>

definition getLocalKernel_none :: "Kernel \<Rightarrow> double \<times> double \<Rightarrow> error + Kernel" where
  "getLocalKernel_none psf p = Inl ComputationError"

definition nopsf_afw :: "Kernel afw" where
  "nopsf_afw = spec_afw\<lparr>getLocalKernel := getLocalKernel_none\<rparr>"

text \<open>
  A source a quarter of a pixel to the right of the centre of the last column: the
  nearest pixel is \<open>(4, 2)\<close>, and the two columns of the warping kernel around it are
  columns 4 and 5 of an image that has columns 0 to 4.
\<close>

definition edge_center :: "double \<times> double" where
  "edge_center = (Fin (17 / 4), Fin 2)"

section \<open>Properties\<close>

subsection \<open>The states of the source record\<close>

lemma states_cases:
  "FilteredFlux_apply_states lib ctrl source exposure center = (exc, states) \<Longrightarrow>
   (\<exists>e. measurement lib ctrl exposure center = Inl e \<and> exc = Some e
        \<and> states = [source\<lparr>flag := True\<rparr>])
   \<or> (\<exists>flux var. measurement lib ctrl exposure center = Inr (flux, var) \<and> exc = None
        \<and> states = [source\<lparr>flag := True\<rparr>,
                         source\<lparr>flag := True, meas := flux\<rparr>,
                         source\<lparr>flag := True, meas := flux, err := var\<rparr>,
                         source\<lparr>flag := False, meas := flux, err := var\<rparr>])"
  by (cases "measurement lib ctrl exposure center")
     (auto simp add: FilteredFlux_apply_states_def Let_def)

text \<open>
  Claim C2. The first state of the source record in every call is the caller's record
  with the failed flag set. A call that throws leaves exactly that state: the flag is
  set and neither the flux nor the variance slot was written. A call that does not throw
  writes the flux, then the variance, then clears the flag, as its last three steps.
  Every state before the last has the flag set, so a state with a cleared flag is the
  final state of a successful call, with both values written.
\<close>

theorem C2_failed_flag_discipline:
  assumes "FilteredFlux_apply_states lib ctrl source exposure center = (exc, states)"
  shows "hd states = source\<lparr>flag := True\<rparr>
     \<and> (exc \<noteq> None \<longrightarrow> states = [source\<lparr>flag := True\<rparr>])
     \<and> (exc = None \<longrightarrow>
          (\<exists>flux var. measurement lib ctrl exposure center = Inr (flux, var)
             \<and> states = [source\<lparr>flag := True\<rparr>,
                         source\<lparr>flag := True, meas := flux\<rparr>,
                         source\<lparr>flag := True, meas := flux, err := var\<rparr>,
                         source\<lparr>flag := False, meas := flux, err := var\<rparr>]))
     \<and> (\<forall>s \<in> set (butlast states). flag s)
     \<and> (\<forall>s \<in> set states. \<not> flag s \<longrightarrow> exc = None \<and> s = last states)
     \<and> FilteredFlux_apply lib ctrl source exposure center = (exc, last states)"
proof -
  have run: "FilteredFlux_apply lib ctrl source exposure center = (exc, last states)"
    using assms by (simp add: FilteredFlux_apply_def)
  from states_cases [OF assms] show ?thesis
  proof (elim disjE exE conjE)
    fix e
    assume "exc = Some e" and "states = [source\<lparr>flag := True\<rparr>]"
    with run show ?thesis by simp
  next
    fix flux var
    assume "measurement lib ctrl exposure center = Inr (flux, var)" and "exc = None"
      and "states = [source\<lparr>flag := True\<rparr>,
                         source\<lparr>flag := True, meas := flux\<rparr>,
                         source\<lparr>flag := True, meas := flux, err := var\<rparr>,
                         source\<lparr>flag := False, meas := flux, err := var\<rparr>]"
    with run show ?thesis by simp
  qed
qed

text \<open>
  The scenario of the specification does not throw, and the same call with an unknown
  kernel name does: the first ends with the flag cleared and both slots written, the
  second with the flag set and the slots as the caller left them.
\<close>

theorem C2_failed_flag_discipline_witness:
  "FilteredFlux_apply spec_afw scenario_ctrl scenario_source scenario_exposure scenario_center
     = (None, \<lparr>flag = False, meas = Fin 0, err = Fin 1\<rparr>)
   \<and> FilteredFlux_apply spec_afw unknown_ctrl scenario_source scenario_exposure scenario_center
     = (Some ConfigurationError, \<lparr>flag = True, meas = Fin 7, err = Fin 7\<rparr>)"
proof -
  have ok: "FilteredFlux_apply_states spec_afw scenario_ctrl scenario_source scenario_exposure
      scenario_center
    = (None, [\<lparr>flag = True, meas = Fin 7, err = Fin 7\<rparr>,
              \<lparr>flag = True, meas = Fin 0, err = Fin 7\<rparr>,
              \<lparr>flag = True, meas = Fin 0, err = Fin 1\<rparr>,
              \<lparr>flag = False, meas = Fin 0, err = Fin 1\<rparr>])"
    by code_simp
  have bad: "FilteredFlux_apply_states spec_afw unknown_ctrl scenario_source scenario_exposure
      scenario_center
    = (Some ConfigurationError, [\<lparr>flag = True, meas = Fin 7, err = Fin 7\<rparr>])"
    by code_simp
  have a: "FilteredFlux_apply spec_afw scenario_ctrl scenario_source scenario_exposure
      scenario_center
    = (None, last [\<lparr>flag = True, meas = Fin 7, err = Fin 7\<rparr>,
              \<lparr>flag = True, meas = Fin 0, err = Fin 7\<rparr>,
              \<lparr>flag = True, meas = Fin 0, err = Fin 1\<rparr>,
              \<lparr>flag = False, meas = Fin 0, err = Fin 1\<rparr>])"
    using C2_failed_flag_discipline [OF ok] by (elim conjE)
  have b: "FilteredFlux_apply spec_afw unknown_ctrl scenario_source scenario_exposure
      scenario_center
    = (Some ConfigurationError, last [\<lparr>flag = True, meas = Fin 7, err = Fin 7\<rparr>])"
    using C2_failed_flag_discipline [OF bad] by (elim conjE)
  from a b show ?thesis by (simp only: last.simps list.simps if_True if_False simp_thms)
qed

subsection \<open>The warping kernel\<close>

text \<open>
  Claim C3. Where the library knows the kernel name, the warping kernel of the call has
  the centre of the kernel the library made, moved by exactly one along x when the
  offset along x is negative, however small, and not moved when that offset is exactly
  0; the same along y. The kernel image that is convolved is computed from the kernel
  with the moved centre and the two offsets as parameters.
\<close>

theorem C3_parity_tie_break:
  assumes "makeWarpingKernel lib (warpingKernelName ctrl) = Inr k0"
  shows "\<exists>wk. warpingKernel lib ctrl dKerX dKerY = Inr wk
     \<and> (dKerX = Fin 0 \<longrightarrow> getCtrX wk = getCtrX k0)
     \<and> (dless dKerX (Fin 0) \<longrightarrow> getCtrX wk = getCtrX k0 + 1)
     \<and> (dKerY = Fin 0 \<longrightarrow> getCtrY wk = getCtrY k0)
     \<and> (dless dKerY (Fin 0) \<longrightarrow> getCtrY wk = getCtrY k0 + 1)
     \<and> getKernelParameters wk = [dKerX, dKerY]
     \<and> (\<forall>img. computeImage lib wk True = Inr img \<longrightarrow>
           mimageCtrPix lib mimage wk =
             convolveAtAPoint lib
               (xy_at mimage (fst (getXY0 mimage) - getCtrX wk) (snd (getXY0 mimage) - getCtrY wk))
               (xy_at img 0 0) (getWidth wk) (getHeight wk))"
  using assms
  by (simp add: warpingKernel_def Let_def setCtrX_def setCtrY_def setKernelParameters_def
      mimageCtrPix_def subimMin_def)

theorem C3_parity_tie_break_witness:
  "(\<exists>wk. warpingKernel spec_afw scenario_ctrl (Fin (- 1 / 1024)) (Fin 0) = Inr wk
      \<and> getCtrX wk = 1 \<and> getCtrY wk = 0)
   \<and> (\<exists>wk. warpingKernel spec_afw scenario_ctrl (Fin 0) (Fin (- 1 / 2)) = Inr wk
      \<and> getCtrX wk = 0 \<and> getCtrY wk = 1)"
proof -
  have made: "makeWarpingKernel spec_afw (warpingKernelName scenario_ctrl)
      = Inr \<lparr>kernelName = ''bilinear'', getWidth = 2, getHeight = 2, getCtrX = 0, getCtrY = 0,
             getKernelParameters = [Fin 0, Fin 0]\<rparr>"
    by (simp add: spec_afw_def scenario_ctrl_def makeWarpingKernel_spec_def)
  have neg: "dless (Fin (- 1 / 1024)) (Fin 0)" "dless (Fin (- 1 / 2)) (Fin 0)"
    by simp_all
  from C3_parity_tie_break [OF made, of "Fin (- 1 / 1024)" "Fin 0"] neg
  have a: "\<exists>wk. warpingKernel spec_afw scenario_ctrl (Fin (- 1 / 1024)) (Fin 0) = Inr wk
      \<and> getCtrX wk = 1 \<and> getCtrY wk = 0"
    by fastforce
  from C3_parity_tie_break [OF made, of "Fin 0" "Fin (- 1 / 2)"] neg
  have b: "\<exists>wk. warpingKernel spec_afw scenario_ctrl (Fin 0) (Fin (- 1 / 2)) = Inr wk
      \<and> getCtrX wk = 0 \<and> getCtrY wk = 1"
    by fastforce
  from a b show ?thesis by (rule conjI)
qed

subsection \<open>The weight\<close>

lemma fold_sq_foldl:
  "fold (\<lambda>p a. dadd a (dmul p p)) row acc = foldl dadd acc (map (\<lambda>c. dmul c c) row)"
  by (induction row arbitrary: acc) simp_all

lemma psfSqSum_rows:
  "fold (\<lambda>row acc. fold (\<lambda>p a. dadd a (dmul p p)) row acc) img acc
     = foldl dadd acc (map (\<lambda>c. dmul c c) (concat img))"
  by (induction img arbitrary: acc) (simp_all add: fold_sq_foldl)

lemma psfSqSum_dsum: "psfSqSum img = dsum (map (\<lambda>c. dmul c c) (concat img))"
  by (simp add: psfSqSum_def dsum_def psfSqSum_rows)

text \<open>
  Claim C4. The call computes the weight \<open>w\<close> exactly when the PSF gives a local kernel
  and that kernel an image, and then \<open>w\<close> is \<open>1 / s\<close>, where \<open>s\<close> is the sum of the
  squares of all cells of the image of the PSF kernel, computed with normalization
  asked for; the kernel is the local kernel of the PSF at the position that the inverse
  mapping gives for the rounded index of the centre on each axis, not at the centre.
\<close>

theorem C4_weight:
  "weight lib exposure center = Inr w \<longleftrightarrow>
   (\<exists>psfKernel psfImage.
      getLocalKernel lib (getPsf exposure)
        (indexToPosition lib (getMaskedImage exposure)
           (fst (positionToIndex lib (getMaskedImage exposure) (fst center) X)) X,
         indexToPosition lib (getMaskedImage exposure)
           (fst (positionToIndex lib (getMaskedImage exposure) (snd center) Y)) Y)
        = Inr psfKernel
    \<and> computeImage lib psfKernel True = Inr psfImage
    \<and> w = ddiv (Fin 1) (dsum (map (\<lambda>c. dmul c c) (concat psfImage))))"
  by (auto simp add: weight_def ctrPixPos_def Let_def psfSqSum_dsum split: sum.splits)

subsection \<open>The stages of the call\<close>

lemma measurement_Inr:
  "measurement lib ctrl exposure center = Inr r \<Longrightarrow>
   \<exists>w wk p. weight lib exposure center = Inr w
     \<and> warpingKernel lib ctrl
          (snd (positionToIndex lib (getMaskedImage exposure) (fst center) X))
          (snd (positionToIndex lib (getMaskedImage exposure) (snd center) Y)) = Inr wk
     \<and> mimageCtrPix lib (getMaskedImage exposure) wk = Inr p
     \<and> r = (dmul (pixImage p) w, dmul (dmul (pixVariance p) w) w)"
  by (auto simp add: measurement_def Let_def split: sum.splits)

lemma apply_by_measurement:
  "FilteredFlux_apply lib ctrl source exposure center =
     (case measurement lib ctrl exposure center of
        Inl e \<Rightarrow> (Some e, source\<lparr>flag := True\<rparr>)
      | Inr fv \<Rightarrow> (None, source\<lparr>flag := False, meas := fst fv, err := snd fv\<rparr>))"
  by (simp add: FilteredFlux_apply_def FilteredFlux_apply_states_def Let_def
      split: sum.splits)

lemma apply_None:
  assumes "FilteredFlux_apply lib ctrl source exposure center = (None, s')"
  shows "\<exists>fv. measurement lib ctrl exposure center = Inr fv
     \<and> s' = source\<lparr>flag := False, meas := fst fv, err := snd fv\<rparr>"
proof (cases "measurement lib ctrl exposure center")
  case (Inl e)
  with assms show ?thesis by (simp add: apply_by_measurement)
next
  case (Inr fv)
  with assms show ?thesis by (simp add: apply_by_measurement)
qed

subsection \<open>The point convolution\<close>

lemma those_shift_row:
  "those (map (\<lambda>ik. map_option (Pair (snd ik)) (pixelAt im (x + int (fst ik)) y))
            (enumerate (Suc n) ks))
   = those (map (\<lambda>ik. map_option (Pair (snd ik)) (pixelAt im (x + 1 + int (fst ik)) y))
            (enumerate n ks))"
proof -
  have "map (\<lambda>ik. map_option (Pair (snd ik)) (pixelAt im (x + int (fst ik)) y))
            (enumerate (Suc n) ks)
      = map (\<lambda>ik. map_option (Pair (snd ik)) (pixelAt im (x + 1 + int (fst ik)) y))
            (enumerate n ks)"
    by (simp add: enumerate_Suc_eq apfst_def map_prod_def split_def ac_simps)
  then show ?thesis by simp
qed

lemma footprintRow_Nil: "footprintRow im x y [] = Some []"
  by (simp add: footprintRow_def)

lemma footprintRow_Cons:
  "footprintRow im x y (k # ks) =
     (case pixelAt im x y of
        None \<Rightarrow> None
      | Some p \<Rightarrow> map_option ((#) (k, p)) (footprintRow im (x + 1) y ks))"
  by (simp add: footprintRow_def those_shift_row split: option.splits)

lemma convolveRow_footprint:
  "convolveRow im x y ks acc =
     (case footprintRow im x y ks of
        None \<Rightarrow> Inl BoundsError
      | Some cells \<Rightarrow> Inr (foldl (\<lambda>a c. addScaled a (fst c) (snd c)) acc cells))"
proof (induction ks arbitrary: x acc)
  case Nil
  show ?case by (simp add: footprintRow_Nil)
next
  case (Cons k ks)
  show ?case
    by (simp add: footprintRow_Cons Cons.IH split: option.splits)
qed

lemma those_shift_rows:
  "those (map (\<lambda>jr. footprintRow im x (y + int (fst jr)) (snd jr)) (enumerate (Suc n) rows))
   = those (map (\<lambda>jr. footprintRow im x (y + 1 + int (fst jr)) (snd jr)) (enumerate n rows))"
proof -
  have "map (\<lambda>jr. footprintRow im x (y + int (fst jr)) (snd jr)) (enumerate (Suc n) rows)
      = map (\<lambda>jr. footprintRow im x (y + 1 + int (fst jr)) (snd jr)) (enumerate n rows)"
    by (simp add: enumerate_Suc_eq apfst_def map_prod_def split_def ac_simps)
  then show ?thesis by simp
qed

lemma footprint_Nil: "footprint im x y [] = Some []"
  by (simp add: footprint_def)

lemma footprint_Cons:
  "footprint im x y (row # rows) =
     (case footprintRow im x y row of
        None \<Rightarrow> None
      | Some cs \<Rightarrow> map_option ((@) cs) (footprint im x (y + 1) rows))"
  by (simp add: footprint_def those_shift_rows option.map_comp comp_def
      split: option.splits)

lemma convolveRows_footprint:
  "convolveRows im x y rows acc =
     (case footprint im x y rows of
        None \<Rightarrow> Inl BoundsError
      | Some cells \<Rightarrow> Inr (foldl (\<lambda>a c. addScaled a (fst c) (snd c)) acc cells))"
proof (induction rows arbitrary: y acc)
  case Nil
  show ?case by (simp add: footprint_Nil)
next
  case (Cons row rows)
  show ?case
    by (simp add: footprint_Cons convolveRow_footprint Cons.IH split: option.splits)
qed

lemma addScaled_image:
  "pixImage (foldl (\<lambda>a c. addScaled a (fst c) (snd c)) acc cells)
     = foldl dadd (pixImage acc) (map (\<lambda>c. dmul (fst c) (pixImage (snd c))) cells)"
  by (induction cells arbitrary: acc) (simp_all add: addScaled_def)

lemma addScaled_variance:
  "pixVariance (foldl (\<lambda>a c. addScaled a (fst c) (snd c)) acc cells)
     = foldl dadd (pixVariance acc)
         (map (\<lambda>c. dmul (dmul (fst c) (fst c)) (pixVariance (snd c))) cells)"
  by (induction cells arbitrary: acc) (simp_all add: addScaled_def)

lemma convolveAtAPoint_spec_Inr:
  assumes "convolveAtAPoint_spec imLoc kLoc width height = Inr p"
  shows "\<exists>cells.
      footprint (locImage imLoc) (locX imLoc) (locY imLoc) (kernelCells kLoc width height)
        = Some cells
    \<and> pixImage p = dsum (map (\<lambda>c. dmul (fst c) (pixImage (snd c))) cells)
    \<and> pixVariance p = dsum (map (\<lambda>c. dmul (dmul (fst c) (fst c)) (pixVariance (snd c))) cells)"
proof (cases "footprint (locImage imLoc) (locX imLoc) (locY imLoc)
                (kernelCells kLoc width height)")
  case None
  with assms show ?thesis
    by (simp add: convolveAtAPoint_spec_def convolveRows_footprint)
next
  case (Some cells)
  with assms have "p = foldl (\<lambda>a c. addScaled a (fst c) (snd c))
                         \<lparr>pixImage = Fin 0, pixVariance = Fin 0\<rparr> cells"
    by (simp add: convolveAtAPoint_spec_def convolveRows_footprint)
  then have "pixImage p = dsum (map (\<lambda>c. dmul (fst c) (pixImage (snd c))) cells)"
    and "pixVariance p
          = dsum (map (\<lambda>c. dmul (dmul (fst c) (fst c)) (pixVariance (snd c))) cells)"
    by (simp_all add: addScaled_image addScaled_variance dsum_def)
  with Some show ?thesis by simp
qed

lemma dmul_twice: "dmul (dmul v w) w = dmul v (dmul w w)"
  by (cases v; cases w) (auto simp add: zero_less_mult_iff mult_less_0_iff)

lemma mimageCtrPix_Inr:
  assumes "mimageCtrPix lib mimage wk = Inr p"
  shows "\<exists>img. computeImage lib wk True = Inr img
     \<and> convolveAtAPoint lib
          (xy_at mimage (fst (getXY0 mimage) - getCtrX wk) (snd (getXY0 mimage) - getCtrY wk))
          (xy_at img 0 0) (getWidth wk) (getHeight wk) = Inr p"
  using assms
  by (cases "computeImage lib wk True") (simp_all add: mimageCtrPix_def subimMin_def)

text \<open>
  Claim C5. In a call that does not throw, with the point convolution of the
  specification, the convolved value is the sum of weight times pixel value and the
  convolved variance the sum of squared weight times pixel variance, over the cells of
  the warping kernel image laid on the image; the flux written is the value times the
  weight and the variance written is the convolved variance times the square of the
  weight.
\<close>

theorem C5_flux_and_variance:
  assumes "FilteredFlux_apply lib ctrl source exposure center = (None, s')"
    and "convolveAtAPoint lib = convolveAtAPoint_spec"
  shows "\<exists>w wk img cells.
      weight lib exposure center = Inr w
    \<and> warpingKernel lib ctrl
        (snd (positionToIndex lib (getMaskedImage exposure) (fst center) X))
        (snd (positionToIndex lib (getMaskedImage exposure) (snd center) Y)) = Inr wk
    \<and> computeImage lib wk True = Inr img
    \<and> footprint (getMaskedImage exposure)
        (fst (getXY0 (getMaskedImage exposure)) - getCtrX wk)
        (snd (getXY0 (getMaskedImage exposure)) - getCtrY wk)
        (kernelCells (xy_at img 0 0) (getWidth wk) (getHeight wk)) = Some cells
    \<and> meas s' = dmul (dsum (map (\<lambda>c. dmul (fst c) (pixImage (snd c))) cells)) w
    \<and> err s' = dmul (dsum (map (\<lambda>c. dmul (dmul (fst c) (fst c)) (pixVariance (snd c))) cells))
                  (dmul w w)
    \<and> flag s' = False"
proof -
  from apply_None [OF assms(1)] obtain fv where
    m: "measurement lib ctrl exposure center = Inr fv"
    and s': "s' = source\<lparr>flag := False, meas := fst fv, err := snd fv\<rparr>"
    by blast
  from measurement_Inr [OF m] obtain w wk p where
    w: "weight lib exposure center = Inr w"
    and wk: "warpingKernel lib ctrl
        (snd (positionToIndex lib (getMaskedImage exposure) (fst center) X))
        (snd (positionToIndex lib (getMaskedImage exposure) (snd center) Y)) = Inr wk"
    and p: "mimageCtrPix lib (getMaskedImage exposure) wk = Inr p"
    and fv: "fv = (dmul (pixImage p) w, dmul (dmul (pixVariance p) w) w)"
    by blast
  from mimageCtrPix_Inr [OF p] assms(2) obtain img where
    img: "computeImage lib wk True = Inr img"
    and conv: "convolveAtAPoint_spec
          (xy_at (getMaskedImage exposure)
             (fst (getXY0 (getMaskedImage exposure)) - getCtrX wk)
             (snd (getXY0 (getMaskedImage exposure)) - getCtrY wk))
          (xy_at img 0 0) (getWidth wk) (getHeight wk) = Inr p"
    by auto
  from convolveAtAPoint_spec_Inr [OF conv] obtain cells where
    cells: "footprint (getMaskedImage exposure)
        (fst (getXY0 (getMaskedImage exposure)) - getCtrX wk)
        (snd (getXY0 (getMaskedImage exposure)) - getCtrY wk)
        (kernelCells (xy_at img 0 0) (getWidth wk) (getHeight wk)) = Some cells"
    and vsum: "pixImage p = dsum (map (\<lambda>c. dmul (fst c) (pixImage (snd c))) cells)"
    and varsum: "pixVariance p
        = dsum (map (\<lambda>c. dmul (dmul (fst c) (fst c)) (pixVariance (snd c))) cells)"
    by (auto simp add: xy_at_def)
  have "meas s' = dmul (dsum (map (\<lambda>c. dmul (fst c) (pixImage (snd c))) cells)) w"
    using s' fv vsum by simp
  moreover have "err s'
      = dmul (dsum (map (\<lambda>c. dmul (dmul (fst c) (fst c)) (pixVariance (snd c))) cells))
          (dmul w w)"
    using s' fv varsum by (simp add: dmul_twice)
  moreover have "flag s' = False"
    using s' by simp
  ultimately show ?thesis
    using w wk img cells by blast
qed

theorem C5_flux_and_variance_witness:
  "FilteredFlux_apply spec_afw scenario_ctrl scenario_source scenario_exposure edge_center
     = (None, \<lparr>flag = False, meas = Fin 0, err = Fin (5 / 8)\<rparr>)
   \<and> (\<exists>w wk img cells.
      weight spec_afw scenario_exposure edge_center = Inr w
    \<and> warpingKernel spec_afw scenario_ctrl
        (snd (positionToIndex spec_afw (getMaskedImage scenario_exposure) (fst edge_center) X))
        (snd (positionToIndex spec_afw (getMaskedImage scenario_exposure) (snd edge_center) Y))
        = Inr wk
    \<and> computeImage spec_afw wk True = Inr img
    \<and> footprint (getMaskedImage scenario_exposure)
        (fst (getXY0 (getMaskedImage scenario_exposure)) - getCtrX wk)
        (snd (getXY0 (getMaskedImage scenario_exposure)) - getCtrY wk)
        (kernelCells (xy_at img 0 0) (getWidth wk) (getHeight wk)) = Some cells
    \<and> meas \<lparr>flag = False, meas = Fin 0, err = Fin (5 / 8)\<rparr>
        = dmul (dsum (map (\<lambda>c. dmul (fst c) (pixImage (snd c))) cells)) w
    \<and> err \<lparr>flag = False, meas = Fin 0, err = Fin (5 / 8)\<rparr>
        = dmul (dsum (map (\<lambda>c. dmul (dmul (fst c) (fst c)) (pixVariance (snd c))) cells))
            (dmul w w)
    \<and> flag \<lparr>flag = False, meas = Fin 0, err = Fin (5 / 8)\<rparr> = False)"
proof -
  have run: "FilteredFlux_apply spec_afw scenario_ctrl scenario_source scenario_exposure
      edge_center = (None, \<lparr>flag = False, meas = Fin 0, err = Fin (5 / 8)\<rparr>)"
    by code_simp
  have conv: "convolveAtAPoint spec_afw = convolveAtAPoint_spec"
    by (simp add: spec_afw_def)
  from run C5_flux_and_variance [OF run conv] show ?thesis by (rule conjI)
qed

theorem C4_weight_witness:
  "weight spec_afw scenario_exposure (Fin (9 / 4), Fin (7 / 4)) = Inr (Fin 1)
   \<and> (\<exists>psfKernel psfImage.
        getLocalKernel spec_afw (getPsf scenario_exposure) (Fin 2, Fin 2) = Inr psfKernel
      \<and> computeImage spec_afw psfKernel True = Inr psfImage
      \<and> Fin 1 = ddiv (Fin 1) (dsum (map (\<lambda>c. dmul c c) (concat psfImage))))"
proof -
  have w: "weight spec_afw scenario_exposure (Fin (9 / 4), Fin (7 / 4)) = Inr (Fin 1)"
    by code_simp
  have x: "indexToPosition spec_afw (getMaskedImage scenario_exposure)
           (fst (positionToIndex spec_afw (getMaskedImage scenario_exposure) (Fin (9 / 4)) X)) X
         = Fin 2"
    by code_simp
  have y: "indexToPosition spec_afw (getMaskedImage scenario_exposure)
           (fst (positionToIndex spec_afw (getMaskedImage scenario_exposure) (Fin (7 / 4)) Y)) Y
         = Fin 2"
    by code_simp
  from C4_weight [THEN iffD1, OF w] have "\<exists>psfKernel psfImage.
        getLocalKernel spec_afw (getPsf scenario_exposure) (Fin 2, Fin 2) = Inr psfKernel
      \<and> computeImage spec_afw psfKernel True = Inr psfImage
      \<and> Fin 1 = ddiv (Fin 1) (dsum (map (\<lambda>c. dmul c c) (concat psfImage)))"
    by (simp only: fst_conv snd_conv x y)
  with w show ?thesis by (rule conjI)
qed

subsection \<open>A degenerate PSF\<close>









subsection \<open>An unknown kernel name\<close>

text \<open>
  Claim C8, as stated, fails: the kernel name is looked up only after the weight was
  computed, so with a PSF model that throws and an unknown kernel name the call fails
  with the error of the PSF model, not with a ConfigurationError.
\<close>

theorem C8_counterexample:
  "makeWarpingKernel nopsf_afw (warpingKernelName unknown_ctrl) = Inl ConfigurationError
   \<and> FilteredFlux_apply nopsf_afw unknown_ctrl scenario_source scenario_exposure scenario_center
       = (Some ComputationError, \<lparr>flag = True, meas = Fin 7, err = Fin 7\<rparr>)"
  by code_simp

text \<open>
  Claim C8, amended. When the kernel name is not one the library knows, the call
  fails, the flag stays set, nothing is written, and no pixel is read: the point
  convolution is not reached, whatever it is. The error is the ConfigurationError when
  the weight was computed, and the error of the weight computation, which comes first,
  otherwise.
\<close>

theorem C8_unknown_kernel_name:
  assumes "makeWarpingKernel lib (warpingKernelName ctrl) = Inl ConfigurationError"
  shows "(\<forall>w. weight lib exposure center = Inr w \<longrightarrow>
            FilteredFlux_apply lib ctrl source exposure center
              = (Some ConfigurationError, source\<lparr>flag := True\<rparr>))
    \<and> (\<forall>e. weight lib exposure center = Inl e \<longrightarrow>
            FilteredFlux_apply lib ctrl source exposure center
              = (Some e, source\<lparr>flag := True\<rparr>))
    \<and> (\<forall>f. FilteredFlux_apply (lib\<lparr>convolveAtAPoint := f\<rparr>) ctrl source exposure center
            = FilteredFlux_apply lib ctrl source exposure center)"
proof -
  have wk: "warpingKernel lib ctrl dx dy = Inl ConfigurationError" for dx dy
    using assms by (simp add: warpingKernel_def)
  have wk': "warpingKernel (lib\<lparr>convolveAtAPoint := f\<rparr>) ctrl dx dy = Inl ConfigurationError"
    for f dx dy
    using assms by (simp add: warpingKernel_def)
  have same: "weight (lib\<lparr>convolveAtAPoint := f\<rparr>) exposure center = weight lib exposure center"
    for f
    by (simp add: weight_def ctrPixPos_def cong: sum.case_cong)
  show ?thesis
    by (simp add: apply_by_measurement measurement_def Let_def wk wk' same split: sum.splits)
qed

theorem C8_unknown_kernel_name_witness:
  "FilteredFlux_apply spec_afw unknown_ctrl scenario_source scenario_exposure scenario_center
     = (Some ConfigurationError, scenario_source\<lparr>flag := True\<rparr>)
   \<and> FilteredFlux_apply nopsf_afw unknown_ctrl scenario_source scenario_exposure scenario_center
     = (Some ComputationError, scenario_source\<lparr>flag := True\<rparr>)"
proof -
  have m1: "makeWarpingKernel spec_afw (warpingKernelName unknown_ctrl) = Inl ConfigurationError"
    by code_simp
  have m2: "makeWarpingKernel nopsf_afw (warpingKernelName unknown_ctrl) = Inl ConfigurationError"
    by code_simp
  have w1: "weight spec_afw scenario_exposure scenario_center = Inr (Fin 1)"
    by code_simp
  have w2: "weight nopsf_afw scenario_exposure scenario_center = Inl ComputationError"
    by code_simp
  from C8_unknown_kernel_name [OF m1, of scenario_exposure scenario_center scenario_source] w1
  have a: "FilteredFlux_apply spec_afw unknown_ctrl scenario_source scenario_exposure
      scenario_center = (Some ConfigurationError, scenario_source\<lparr>flag := True\<rparr>)"
    by blast
  from C8_unknown_kernel_name [OF m2, of scenario_exposure scenario_center scenario_source] w2
  have b: "FilteredFlux_apply nopsf_afw unknown_ctrl scenario_source scenario_exposure
      scenario_center = (Some ComputationError, scenario_source\<lparr>flag := True\<rparr>)"
    by blast
  from a b show ?thesis by (rule conjI)
qed

subsection \<open>Where the kernel is laid on the image\<close>

text \<open>
  Claim C6, the code at the scenario. The source is at the centre pixel, index
  \<open>(2, 2)\<close>, and the warping kernel has its centre at \<open>(0, 0)\<close>, so the index of
  the nearest pixel minus the kernel centre is \<open>(2, 2)\<close>. Line 144 takes the origin
  of the image in place of the index of the nearest pixel: the offset handed to the
  point convolution is \<open>(0, 0)\<close>.
\<close>

theorem C6_offset_at_scenario:
  "positionToIndex spec_afw (getMaskedImage scenario_exposure) (fst scenario_center) X
     = (2, Fin 0)
   \<and> positionToIndex spec_afw (getMaskedImage scenario_exposure) (snd scenario_center) Y
     = (2, Fin 0)
   \<and> warpingKernel spec_afw scenario_ctrl (Fin 0) (Fin 0)
     = Inr \<lparr>kernelName = ''bilinear'', getWidth = 2, getHeight = 2, getCtrX = 0, getCtrY = 0,
            getKernelParameters = [Fin 0, Fin 0]\<rparr>
   \<and> subimMin (getMaskedImage scenario_exposure)
       \<lparr>kernelName = ''bilinear'', getWidth = 2, getHeight = 2, getCtrX = 0, getCtrY = 0,
        getKernelParameters = [Fin 0, Fin 0]\<rparr>
     = (0, 0)"
  by code_simp

text \<open>
  Claim C7, the code at a source near the right edge, with the point convolution of the
  specification. The nearest pixel is \<open>(4, 2)\<close> and the offset along x is \<open>1 / 4\<close>; the
  kernel laid around the nearest pixel would cover column 5, which the image does not
  have. The call lays the kernel at the origin instead, throws nothing and clears the
  flag.
\<close>

theorem C7_edge_source_not_refused:
  "positionToIndex spec_afw (getMaskedImage scenario_exposure) (fst edge_center) X
     = (4, Fin (1 / 4))
   \<and> positionToIndex spec_afw (getMaskedImage scenario_exposure) (snd edge_center) Y
     = (2, Fin 0)
   \<and> footprint scenario_image 4 2 [[Fin (3 / 4), Fin (1 / 4)], [Fin 0, Fin 0]] = None
   \<and> FilteredFlux_apply spec_afw scenario_ctrl scenario_source scenario_exposure edge_center
     = (None, \<lparr>flag = False, meas = Fin 0, err = Fin (5 / 8)\<rparr>)"
  by code_simp

text \<open>
  Claim C9, the code at the scenario. The source is exactly at the centre pixel, whose
  value is 100 and whose variance is 1, the offsets are 0 on both axes and the weight
  is 1. The call reports the value of the pixel at the origin: flux 0, variance 1, flag
  cleared.
\<close>

theorem C9_scenario_result:
  "pixelAt scenario_image 2 2 = Some \<lparr>pixImage = Fin 100, pixVariance = Fin 1\<rparr>
   \<and> positionToIndex spec_afw (getMaskedImage scenario_exposure) (fst scenario_center) X
     = (2, Fin 0)
   \<and> positionToIndex spec_afw (getMaskedImage scenario_exposure) (snd scenario_center) Y
     = (2, Fin 0)
   \<and> weight spec_afw scenario_exposure scenario_center = Inr (Fin 1)
   \<and> computeImage spec_afw
       \<lparr>kernelName = ''bilinear'', getWidth = 2, getHeight = 2, getCtrX = 0, getCtrY = 0,
        getKernelParameters = [Fin 0, Fin 0]\<rparr> True
     = Inr [[Fin 1, Fin 0], [Fin 0, Fin 0]]
   \<and> FilteredFlux_apply spec_afw scenario_ctrl scenario_source scenario_exposure scenario_center
     = (None, \<lparr>flag = False, meas = Fin 0, err = Fin 1\<rparr>)"
  by code_simp

subsection \<open>What the call leaves unchanged\<close>



end
